theory Spec2Isabelle
  imports Main
begin

section \<open>Values of configuration modules\<close>

text \<open>
  Both modules of the repository export one object literal. An object literal is kept as
  the list of its properties, in the order in which the source writes them, so that
  "no other setting is present" is a statement about the list of keys.
\<close>

datatype jsval =
    JString string
  | JArray "jsval list"
  | JObject "(string \<times> jsval) list"

fun properties :: "jsval \<Rightarrow> (string \<times> jsval) list" where
  "properties (JObject ps) = ps"
| "properties _ = []"

definition keys :: "jsval \<Rightarrow> string list" where
  "keys v = map fst (properties v)"

definition property :: "string \<Rightarrow> jsval \<Rightarrow> jsval option" where
  "property k v = map_of (properties v) k"

text \<open>
  \<^verbatim>\<open>defineConfig\<close> is imported from the build tool. It is that tool's typing helper
  and hands its argument back unchanged.
\<close>

definition defineConfig :: "jsval \<Rightarrow> jsval" where
  "defineConfig config = config"

text \<open>The exceptions that evaluating a module of the repository can raise.\<close>

datatype error =
    ERR_INVALID_URL
  | ERR_INVALID_URL_SCHEME
  | ERR_INVALID_FILE_URL_HOST
  | ERR_INVALID_FILE_URL_PATH
  | URIError

section \<open>The platform: URL records\<close>

text \<open>
  \<^verbatim>\<open>packages/app/vite.config.ts\<close> calls two functions of the platform,
  the \<^verbatim>\<open>URL\<close> constructor and \<^verbatim>\<open>fileURLToPath\<close> of \<^verbatim>\<open>node:url\<close>. They are
  modelled after the URL Standard as the parser of Node.js implements it (the record of
  a parsed URL, shortening a path, the states of the parser that a path-relative
  reference reaches, the path serializer), after the ECMAScript definition of
  \<^verbatim>\<open>decodeURIComponent\<close>, and after \<^verbatim>\<open>fileURLToPath\<close> of Node.js with its two branches,
  for a POSIX host and for Windows. A string is a list of bytes; text beyond ASCII is
  its UTF-8 encoding.
\<close>

datatype url_path = Opaque string | Segments "string list"

record url =
  scheme :: string
  username :: string
  password :: string
  host :: "string option"
  port :: "nat option"
  path :: url_path
  query :: "string option"
  fragment :: "string option"

definition ascii_alpha :: "char \<Rightarrow> bool" where
  "ascii_alpha c =
     ((65 \<le> (of_char c :: nat) \<and> (of_char c :: nat) \<le> 90) \<or>
      (97 \<le> (of_char c :: nat) \<and> (of_char c :: nat) \<le> 122))"

definition ascii_lower :: "char \<Rightarrow> char" where
  "ascii_lower c =
     (if 65 \<le> (of_char c :: nat) \<and> (of_char c :: nat) \<le> 90
      then char_of ((of_char c :: nat) + 32) else c)"

definition is_special :: "string \<Rightarrow> bool" where
  "is_special sch = (sch \<in> set [''ftp'', ''file'', ''http'', ''https'', ''ws'', ''wss''])"

definition single_dot_segment :: "string \<Rightarrow> bool" where
  "single_dot_segment s = (s = ''.'' \<or> map ascii_lower s = ''%2e'')"

definition double_dot_segment :: "string \<Rightarrow> bool" where
  "double_dot_segment s =
     (s = ''..'' \<or> map ascii_lower s = ''.%2e'' \<or> map ascii_lower s = ''%2e.''
        \<or> map ascii_lower s = ''%2e%2e'')"

definition windows_drive_letter :: "string \<Rightarrow> bool" where
  "windows_drive_letter s =
     (case s of [a, b] \<Rightarrow> ascii_alpha a \<and> (b = CHR '':'' \<or> b = CHR ''|'') | _ \<Rightarrow> False)"

definition starts_with_windows_drive_letter :: "string \<Rightarrow> bool" where
  "starts_with_windows_drive_letter s =
     (2 \<le> length s \<and> windows_drive_letter (take 2 s) \<and>
      (length s = 2 \<or> s ! 2 \<in> set [CHR ''/'', CHR 0x5C, CHR ''?'', CHR ''#'']))"

text \<open>
  Shortening a path removes its last segment, if there is one; but the path of a file
  URL that consists of one segment with a drive prefix is left as it is. The URL
  Standard asks for a drive letter here (two characters, a letter and a colon); the
  parser of Node.js looks at the first two characters of the segment only, so that it
  keeps \<^verbatim>\<open>C:\<close> and \<^verbatim>\<open>C:foo\<close> alike. The model follows the parser.
\<close>

definition drive_prefixed :: "string \<Rightarrow> bool" where
  "drive_prefixed s = (case s of a # b # _ \<Rightarrow> ascii_alpha a \<and> b = CHR '':'' | _ \<Rightarrow> False)"

definition shorten :: "string \<Rightarrow> string list \<Rightarrow> string list" where
  "shorten sch p =
     (if sch = ''file'' \<and> length p = 1 \<and> drive_prefixed (p ! 0) then p else butlast p)"

text \<open>
  The path state of the parser. \<open>buf\<close> is the segment read so far. At the end of the
  input and at a separator the segment is closed: a double-dot segment shortens the
  path, a single-dot segment is dropped, any other segment is appended; a dot segment
  that ends the input leaves an empty last segment. \<open>sep\<close> tells whether a separator
  (rather than the end of the input) closed the segment.
\<close>

definition close_segment :: "string \<Rightarrow> bool \<Rightarrow> string \<Rightarrow> string list \<Rightarrow> string list" where
  "close_segment sch sep buf p =
     (if double_dot_segment buf then (if sep then shorten sch p else shorten sch p @ [''''])
      else if single_dot_segment buf then (if sep then p else p @ [''''])
      else if sch = ''file'' \<and> p = [] \<and> windows_drive_letter buf
        then p @ [[buf ! 0, CHR '':'']]
      else p @ [buf])"

fun path_state :: "string \<Rightarrow> string list \<Rightarrow> string \<Rightarrow> string \<Rightarrow> string list" where
  "path_state sch p buf [] = close_segment sch False buf p"
| "path_state sch p buf (c # cs) =
     (if c = CHR ''/'' \<or> (is_special sch \<and> c = CHR 0x5C)
      then path_state sch (close_segment sch True buf p) [] cs
      else path_state sch p (buf @ [c]) cs)"

text \<open>
  The references covered by the model of the constructor: a non-empty path-relative
  reference of unreserved characters and slashes. On these the parser strips nothing,
  finds no scheme, query or fragment and percent-encodes nothing, and it goes from the
  no-scheme state through the relative state (or the file state) to the path state.
\<close>

definition unreserved :: "char \<Rightarrow> bool" where
  "unreserved c =
     (ascii_alpha c \<or> (48 \<le> (of_char c :: nat) \<and> (of_char c :: nat) \<le> 57)
        \<or> c \<in> set [CHR ''-'', CHR ''.'', CHR ''_'', CHR ''~''])"

definition path_relative_reference :: "string \<Rightarrow> bool" where
  "path_relative_reference s =
     (s \<noteq> [] \<and> hd s \<noteq> CHR ''/'' \<and> list_all (\<lambda>c. unreserved c \<or> c = CHR ''/'') s)"

text \<open>
  \<^verbatim>\<open>new URL(input, base)\<close> for such a reference. The base is given as the result of
  parsing the base string: \<open>None\<close> when that string is no absolute URL, the record
  otherwise. The constructor throws when the base does not parse and when the base has
  an opaque path. Otherwise the new URL takes scheme and authority from the base, and
  its path is the base's path, shortened once, with the segments of the reference
  applied to it.
\<close>

definition new_URL :: "string \<Rightarrow> url option \<Rightarrow> error + url" where
  "new_URL input base =
     (case base of
        None \<Rightarrow> Inl ERR_INVALID_URL
      | Some b \<Rightarrow>
          (case path b of
             Opaque _ \<Rightarrow> Inl ERR_INVALID_URL
           | Segments bp \<Rightarrow>
               if scheme b \<noteq> ''file''
               then Inr (b\<lparr>path := Segments (path_state (scheme b) (shorten (scheme b) bp) [] input),
                           query := None, fragment := None\<rparr>)
               else Inr \<lparr>scheme = ''file'', username = '''', password = '''', host = host b,
                         port = None,
                         path = Segments (path_state ''file''
                                  (if starts_with_windows_drive_letter input then []
                                   else shorten ''file'' bp) [] input),
                         query = None, fragment = None\<rparr>))"

text \<open>The getters of a URL object that \<^verbatim>\<open>fileURLToPath\<close> reads.\<close>

definition protocol :: "url \<Rightarrow> string" where
  "protocol u = scheme u @ '':''"

definition hostname :: "url \<Rightarrow> string" where
  "hostname u = (case host u of None \<Rightarrow> '''' | Some h \<Rightarrow> h)"

definition serialize_path :: "string list \<Rightarrow> string" where
  "serialize_path p = concat (map (\<lambda>s. CHR ''/'' # s) p)"

definition pathname :: "url \<Rightarrow> string" where
  "pathname u = (case path u of Opaque s \<Rightarrow> s | Segments p \<Rightarrow> serialize_path p)"

section \<open>The platform: decoding a pathname\<close>

definition hex_digit :: "char \<Rightarrow> nat option" where
  "hex_digit c =
     (let n = (of_char c :: nat) in
      if 48 \<le> n \<and> n \<le> 57 then Some (n - 48)
      else if 65 \<le> n \<and> n \<le> 70 then Some (n - 55)
      else if 97 \<le> n \<and> n \<le> 102 then Some (n - 87)
      else None)"

text \<open>The octet written by the two hexadecimal digits at the front of a string.\<close>

definition hex_octet :: "string \<Rightarrow> nat option" where
  "hex_octet s =
     (case s of
        h1 # h2 # _ \<Rightarrow>
          (case hex_digit h1 of None \<Rightarrow> None
           | Some a \<Rightarrow> (case hex_digit h2 of None \<Rightarrow> None | Some b \<Rightarrow> Some (16 * a + b)))
      | _ \<Rightarrow> None)"

text \<open>The number of leading one bits of an octet.\<close>

definition leading_ones :: "nat \<Rightarrow> nat" where
  "leading_ones b =
     (if b < 0x80 then 0 else if b < 0xC0 then 1 else if b < 0xE0 then 2
      else if b < 0xF0 then 3 else if b < 0xF8 then 4 else 5)"

text \<open>The octets of \<open>k\<close> escapes \<^verbatim>\<open>%XX\<close> at the front of a string.\<close>

fun escaped_octets :: "nat \<Rightarrow> string \<Rightarrow> nat list option" where
  "escaped_octets 0 s = Some []"
| "escaped_octets (Suc k) s =
     (case s of
        [] \<Rightarrow> None
      | c # cs \<Rightarrow>
          if c \<noteq> CHR ''%'' then None
          else (case hex_octet cs of None \<Rightarrow> None
                | Some b \<Rightarrow> (case escaped_octets k (drop 2 cs) of None \<Rightarrow> None
                             | Some bs \<Rightarrow> Some (b # bs))))"

text \<open>Well-formed UTF-8 encodings of one code point (two to four octets).\<close>

definition continuation :: "nat \<Rightarrow> bool" where
  "continuation b = (0x80 \<le> b \<and> b \<le> 0xBF)"

definition valid_utf8 :: "nat list \<Rightarrow> bool" where
  "valid_utf8 bs =
     (case bs of
        [b0, b1] \<Rightarrow> 0xC2 \<le> b0 \<and> b0 \<le> 0xDF \<and> continuation b1
      | [b0, b1, b2] \<Rightarrow>
          continuation b2 \<and>
          ((b0 = 0xE0 \<and> 0xA0 \<le> b1 \<and> b1 \<le> 0xBF) \<or>
           (0xE1 \<le> b0 \<and> b0 \<le> 0xEC \<and> continuation b1) \<or>
           (b0 = 0xED \<and> 0x80 \<le> b1 \<and> b1 \<le> 0x9F) \<or>
           (0xEE \<le> b0 \<and> b0 \<le> 0xEF \<and> continuation b1))
      | [b0, b1, b2, b3] \<Rightarrow>
          continuation b2 \<and> continuation b3 \<and>
          ((b0 = 0xF0 \<and> 0x90 \<le> b1 \<and> b1 \<le> 0xBF) \<or>
           (0xF1 \<le> b0 \<and> b0 \<le> 0xF3 \<and> continuation b1) \<or>
           (b0 = 0xF4 \<and> 0x80 \<le> b1 \<and> b1 \<le> 0x8F))
      | _ \<Rightarrow> False)"

text \<open>
  \<^verbatim>\<open>decodeURIComponent\<close>: a character other than \<^verbatim>\<open>%\<close> is copied; an escape of an
  octet below \<^verbatim>\<open>0x80\<close> yields that octet; an escape of a leading octet must be followed
  by the escapes of the rest of a well-formed UTF-8 sequence, which yields these octets.
  Everything else raises \<^verbatim>\<open>URIError\<close>.
\<close>

fun decodeURIComponent :: "string \<Rightarrow> error + string" where
  "decodeURIComponent [] = Inr []"
| "decodeURIComponent (c # cs) =
     (if c \<noteq> CHR ''%''
      then (case decodeURIComponent cs of Inl e \<Rightarrow> Inl e | Inr r \<Rightarrow> Inr (c # r))
      else (case hex_octet cs of
              None \<Rightarrow> Inl URIError
            | Some b \<Rightarrow>
                if leading_ones b = 0
                then (case decodeURIComponent (drop 2 cs) of
                        Inl e \<Rightarrow> Inl e | Inr r \<Rightarrow> Inr (char_of b # r))
                else if leading_ones b = 1 \<or> 4 < leading_ones b then Inl URIError
                else (case escaped_octets (leading_ones b - 1) (drop 2 cs) of
                        None \<Rightarrow> Inl URIError
                      | Some bs \<Rightarrow>
                          if valid_utf8 (b # bs)
                          then (case decodeURIComponent (drop (2 + 3 * (leading_ones b - 1)) cs) of
                                  Inl e \<Rightarrow> Inl e
                                | Inr r \<Rightarrow> Inr (map char_of (b # bs) @ r))
                          else Inl URIError)))"

section \<open>The platform: \<^verbatim>\<open>fileURLToPath\<close>\<close>

text \<open>
  The host platform, as far as \<^verbatim>\<open>fileURLToPath\<close> depends on it: whether the host is
  Windows, and \<^verbatim>\<open>domainToUnicode\<close> of \<^verbatim>\<open>node:url\<close>, which the Windows branch applies to
  the host name of a URL and which is taken as it is.
\<close>

record platform =
  isWindows :: bool
  domainToUnicode :: "string \<Rightarrow> string"

text \<open>
  \<^verbatim>\<open>fileURLToPath\<close> for a URL object throws for a protocol other than \<^verbatim>\<open>file:\<close> and
  then follows the host platform.

  On a POSIX host it throws for a host name that is not empty and for a pathname with an
  escaped slash, and returns the decoded pathname otherwise. The scan for an escaped
  slash looks at every position \<open>n\<close> of the pathname for \<^verbatim>\<open>%\<close> at \<open>n\<close>, \<^verbatim>\<open>2\<close> at
  \<open>n + 1\<close>, and at \<open>n + 2\<close> a character whose code with the bit \<^verbatim>\<open>0x20\<close> set is 102:
  the letter \<^verbatim>\<open>f\<close> or \<^verbatim>\<open>F\<close>.
\<close>

definition hex_2f :: "string \<Rightarrow> bool" where
  "hex_2f cs =
     (case cs of a # b # _ \<Rightarrow> a = CHR ''2'' \<and> (b = CHR ''f'' \<or> b = CHR ''F'') | _ \<Rightarrow> False)"

fun encoded_slash :: "string \<Rightarrow> bool" where
  "encoded_slash [] = False"
| "encoded_slash (c # cs) = ((c = CHR ''%'' \<and> hex_2f cs) \<or> encoded_slash cs)"

definition getPathFromURLPosix :: "url \<Rightarrow> error + string" where
  "getPathFromURLPosix u =
     (if hostname u \<noteq> '''' then Inl ERR_INVALID_FILE_URL_HOST
      else if encoded_slash (pathname u) then Inl ERR_INVALID_FILE_URL_PATH
      else decodeURIComponent (pathname u))"

text \<open>
  On Windows it throws for a pathname with an escaped slash or an escaped backslash
  (\<^verbatim>\<open>%5c\<close>, \<^verbatim>\<open>%5C\<close>), turns every slash of the pathname into a backslash and decodes the
  result. With a host name it returns the UNC path: two backslashes, the host name and
  the decoded pathname. Without one the decoded pathname must have a letter at index 1
  and a colon at index 2, and the path is what follows its first character.
\<close>

definition hex_5c :: "string \<Rightarrow> bool" where
  "hex_5c cs =
     (case cs of a # b # _ \<Rightarrow> a = CHR ''5'' \<and> (b = CHR ''c'' \<or> b = CHR ''C'') | _ \<Rightarrow> False)"

fun encoded_separator :: "string \<Rightarrow> bool" where
  "encoded_separator [] = False"
| "encoded_separator (c # cs) =
     ((c = CHR ''%'' \<and> (hex_2f cs \<or> hex_5c cs)) \<or> encoded_separator cs)"

definition backslashes :: "string \<Rightarrow> string" where
  "backslashes s = map (\<lambda>c. if c = CHR ''/'' then CHR 0x5C else c) s"

definition drive_at_front :: "string \<Rightarrow> bool" where
  "drive_at_front p = (case p of _ # a # b # _ \<Rightarrow> ascii_alpha a \<and> b = CHR '':'' | _ \<Rightarrow> False)"

definition getPathFromURLWin32 :: "platform \<Rightarrow> url \<Rightarrow> error + string" where
  "getPathFromURLWin32 pf u =
     (if encoded_separator (pathname u) then Inl ERR_INVALID_FILE_URL_PATH
      else (case decodeURIComponent (backslashes (pathname u)) of
              Inl e \<Rightarrow> Inl e
            | Inr p \<Rightarrow>
                if hostname u \<noteq> ''''
                then Inr ([CHR 0x5C, CHR 0x5C] @ domainToUnicode pf (hostname u) @ p)
                else if \<not> drive_at_front p then Inl ERR_INVALID_FILE_URL_PATH
                else Inr (tl p)))"

definition fileURLToPath :: "platform \<Rightarrow> url \<Rightarrow> error + string" where
  "fileURLToPath pf u =
     (if protocol u \<noteq> ''file:'' then Inl ERR_INVALID_URL_SCHEME
      else if isWindows pf then getPathFromURLWin32 pf u
      else getPathFromURLPosix u)"

section \<open>The two configuration modules\<close>

text \<open>
  What a module can observe when it is evaluated: its own URL (\<^verbatim>\<open>import.meta.url\<close>),
  the host platform, the working directory, the files on disk and the environment
  variables. The module URL is a string that the application module hands to the
  \<^verbatim>\<open>URL\<close> constructor as the base and uses in no other way; the environment holds what
  parsing that string gives. The imports of both modules (\<^verbatim>\<open>vite\<close>, \<^verbatim>\<open>node:url\<close>) are
  taken to resolve. Evaluating a module yields its default export, or the exception that
  the evaluation raises.
\<close>

record env =
  import_meta_url :: "url option"
  host_platform :: platform
  cwd :: string
  files :: "string \<Rightarrow> string option"
  variables :: "string \<Rightarrow> string option"

text \<open>\<^verbatim>\<open>packages/lib/vite.config.ts\<close>\<close>

definition lib_config :: "env \<Rightarrow> error + jsval" where
  "lib_config e =
     Inr (defineConfig (JObject
       [(''build'', JObject
          [(''lib'', JObject
             [(''entry'', JString ''src/index.ts''),
              (''fileName'', JString ''lib''),
              (''formats'', JArray [JString ''es''])])])]))"

text \<open>\<^verbatim>\<open>packages/app/vite.config.ts\<close>\<close>

definition app_config :: "env \<Rightarrow> error + jsval" where
  "app_config e =
     (case new_URL ''../lib/src'' (import_meta_url e) of
        Inl err \<Rightarrow> Inl err
      | Inr u \<Rightarrow>
          (case fileURLToPath (host_platform e) u of
             Inl err \<Rightarrow> Inl err
           | Inr p \<Rightarrow>
               Inr (defineConfig (JObject
                 [(''resolve'', JObject
                    [(''alias'', JObject [(''@test/lib'', JString p)])])]))))"

section \<open>The records of the interface description\<close>

text \<open>
  The description of the two files speaks of a build-output descriptor with an entry
  source path, an output file base name and a list of output module formats, and of a
  path-alias mapping. The following functions read these out of an exported object:
  the descriptor is the object under \<^verbatim>\<open>build.lib\<close>, whose \<^verbatim>\<open>fileName\<close> is the base
  name of the output file; the alias mapping is the object under \<^verbatim>\<open>resolve.alias\<close>.
\<close>

record build_output_descriptor =
  entry :: string
  outputBaseName :: string
  formats :: "string list"

fun string_of :: "jsval \<Rightarrow> string option" where
  "string_of (JString s) = Some s"
| "string_of _ = None"

fun strings_of :: "jsval \<Rightarrow> string list option" where
  "strings_of (JArray vs) = those (map string_of vs)"
| "strings_of _ = None"

definition descriptor_of :: "jsval \<Rightarrow> build_output_descriptor option" where
  "descriptor_of cfg =
     (case property ''build'' cfg of
        None \<Rightarrow> None
      | Some b \<Rightarrow>
          (case property ''lib'' b of
             None \<Rightarrow> None
           | Some l \<Rightarrow>
               (case (Option.bind (property ''entry'' l) string_of,
                      Option.bind (property ''fileName'' l) string_of,
                      Option.bind (property ''formats'' l) strings_of) of
                  (Some en, Some fn, Some fs) \<Rightarrow>
                    Some \<lparr>entry = en, outputBaseName = fn, formats = fs\<rparr>
                | _ \<Rightarrow> None)))"




section \<open>Locations of the configuration file\<close>










section \<open>Environments used as examples\<close>

text \<open>The record of the URL \<^verbatim>\<open>file:///s1/.../sn\<close>, given its path segments.\<close>

definition file_url :: "string list \<Rightarrow> url" where
  "file_url p =
     \<lparr>scheme = ''file'', username = '''', password = '''', host = Some '''', port = None,
      path = Segments p, query = None, fragment = None\<rparr>"

text \<open>A POSIX host and a Windows host.\<close>

definition posix_host :: platform where
  "posix_host = \<lparr>isWindows = False, domainToUnicode = (\<lambda>h. h)\<rparr>"


text \<open>
  An environment on the host \<open>pf\<close> in which the module URL parses to \<open>u\<close>, with an empty
  disk; and the same on a POSIX host.
\<close>

definition module_on :: "platform \<Rightarrow> url option \<Rightarrow> env" where
  "module_on pf u =
     \<lparr>import_meta_url = u, host_platform = pf, cwd = ''/'', files = (\<lambda>_. None),
      variables = (\<lambda>_. None)\<rparr>"

definition module_at :: "url option \<Rightarrow> env" where
  "module_at u = module_on posix_host u"

section \<open>Resolving the reference\<close>

lemma reference_in_domain: "path_relative_reference ''../lib/src''"
  by (simp add: path_relative_reference_def unreserved_def ascii_alpha_def)

lemma path_state_literal:
  "path_state sch p [] ''../lib/src'' = shorten sch p @ [''lib'', ''src'']"
  by (simp add: close_segment_def double_dot_segment_def single_dot_segment_def
      windows_drive_letter_def ascii_lower_def)

lemma not_drive_literal: "\<not> starts_with_windows_drive_letter ''../lib/src''"
  by (simp add: starts_with_windows_drive_letter_def windows_drive_letter_def ascii_alpha_def)





lemma new_URL_literal:
  assumes "path b = Segments bp"
  shows "\<exists>u. new_URL ''../lib/src'' (Some b) = Inr u \<and> scheme u = scheme b \<and>
           host u = host b \<and>
           path u = Segments (shorten (scheme b) (shorten (scheme b) bp) @ [''lib'', ''src''])"
  using assms by (simp add: new_URL_def path_state_literal not_drive_literal del: path_state.simps)

lemma new_URL_Inr:
  assumes "new_URL ''../lib/src'' base = Inr u"
  shows "\<exists>b bp. base = Some b \<and> path b = Segments bp \<and> scheme u = scheme b \<and>
           host u = host b \<and>
           path u = Segments (shorten (scheme b) (shorten (scheme b) bp) @ [''lib'', ''src''])"
proof -
  from assms obtain b bp where b: "base = Some b" "path b = Segments bp"
    by (auto simp: new_URL_def split: option.splits url_path.splits)
  from new_URL_literal [OF b(2)] assms b show ?thesis by auto
qed

section \<open>Serialized paths and the scan for an escaped slash\<close>




lemma hex_2f_prefix: "hex_2f cs \<Longrightarrow> hex_2f (cs @ ys)"
  by (cases cs; cases "tl cs") (auto simp: hex_2f_def)


lemma encoded_slash_prefix: "encoded_slash xs \<Longrightarrow> encoded_slash (xs @ ys)"
  by (induction xs) (auto simp: hex_2f_prefix)

lemma encoded_slash_suffix: "encoded_slash ys \<Longrightarrow> encoded_slash (xs @ ys)"
  by (induction xs) auto

lemma encoded_slash_drop: "encoded_slash (drop k xs) \<Longrightarrow> encoded_slash xs"
  using encoded_slash_suffix [of "drop k xs" "take k xs"] by simp



lemma encoded_slash_segment:
  assumes "s \<in> set ss" "encoded_slash s"
  shows "encoded_slash (serialize_path ss)"
proof -
  from assms(1) obtain xs ys where "ss = xs @ s # ys" by (auto simp: in_set_conv_decomp)
  then have "serialize_path ss = serialize_path xs @ (CHR ''/'' # s @ serialize_path ys)"
    by (simp add: serialize_path_def)
  moreover from assms(2) have "encoded_slash (CHR ''/'' # s @ serialize_path ys)"
    by (simp add: encoded_slash_prefix)
  ultimately show ?thesis by (simp add: encoded_slash_suffix)
qed


section \<open>Hexadecimal digits and octets\<close>

lemma char_by_code: "(of_char h :: nat) = n \<Longrightarrow> (of_char c :: nat) = n \<Longrightarrow> h = c"
  by (metis of_char_eq_iff)

lemma char_of_eq: "b < 256 \<Longrightarrow> char_of (b::nat) = c \<Longrightarrow> b = of_char c"
  by auto

lemma hex_digit_slash [simp]: "hex_digit CHR ''/'' = None"
  by (simp add: hex_digit_def)

lemma hex_digit_less: "hex_digit h = Some a \<Longrightarrow> a < 16"
  by (auto simp: hex_digit_def Let_def split: if_splits)

lemma hex_digit_2: "hex_digit h = Some 2 \<Longrightarrow> h = CHR ''2''"
proof -
  assume "hex_digit h = Some 2"
  then have "(of_char h :: nat) = 50"
    by (auto simp: hex_digit_def Let_def split: if_splits)
  then show ?thesis by (rule char_by_code) simp
qed

lemma hex_digit_15: "hex_digit h = Some 15 \<Longrightarrow> h = CHR ''f'' \<or> h = CHR ''F''"
proof -
  assume "hex_digit h = Some 15"
  then have "(of_char h :: nat) = 70 \<or> (of_char h :: nat) = 102"
    by (auto simp: hex_digit_def Let_def split: if_splits)
  then show ?thesis
  proof
    assume "(of_char h :: nat) = 70"
    then have "h = CHR ''F''" by (rule char_by_code) simp
    then show ?thesis ..
  next
    assume "(of_char h :: nat) = 102"
    then have "h = CHR ''f''" by (rule char_by_code) simp
    then show ?thesis ..
  qed
qed

lemma hex_octet_cases:
  assumes "hex_octet cs = Some b"
  obtains h1 h2 rest a1 a2 where "cs = h1 # h2 # rest" "hex_digit h1 = Some a1"
    "hex_digit h2 = Some a2" "b = 16 * a1 + a2" "a1 < 16" "a2 < 16"
proof -
  from assms obtain h1 h2 rest where cs: "cs = h1 # h2 # rest"
    by (cases cs; cases "tl cs") (auto simp: hex_octet_def)
  with assms obtain a1 a2 where "hex_digit h1 = Some a1" "hex_digit h2 = Some a2"
    "b = 16 * a1 + a2"
    by (auto simp: hex_octet_def split: option.splits)
  with cs that hex_digit_less show ?thesis by blast
qed



lemma hex_octet_2f:
  assumes "hex_octet cs = Some 47"
  shows "hex_2f cs"
proof -
  from assms obtain h1 h2 rest a1 a2 where c: "cs = h1 # h2 # rest"
    "hex_digit h1 = Some a1" "hex_digit h2 = Some a2" "47 = 16 * a1 + a2" "a1 < 16" "a2 < 16"
    by (rule hex_octet_cases)
  then have "a1 = 2" "a2 = 15" by arith+
  with c hex_digit_2 [of h1] hex_digit_15 [of h2] show ?thesis by (auto simp: hex_2f_def)
qed





section \<open>Decoding\<close>








lemma hex_digit_percent [simp]: "hex_digit CHR ''%'' = None"
  by (simp add: hex_digit_def)




section \<open>Segments of a file system path\<close>





section \<open>Resolving names\<close>







section \<open>Evaluating the application module\<close>

lemma fileURLToPath_posix:
  "\<not> isWindows pf \<Longrightarrow>
   fileURLToPath pf u = Inr q \<longleftrightarrow>
     scheme u = ''file'' \<and> hostname u = '''' \<and> \<not> encoded_slash (pathname u) \<and>
     decodeURIComponent (pathname u) = Inr q"
  by (auto simp: fileURLToPath_def getPathFromURLPosix_def protocol_def)

lemma fileURLToPath_scheme: "fileURLToPath pf u = Inr q \<Longrightarrow> scheme u = ''file''"
  by (auto simp: fileURLToPath_def protocol_def split: if_splits)

lemma app_config_Inr:
  "app_config e = Inr cfg \<longleftrightarrow>
     (\<exists>u p. new_URL ''../lib/src'' (import_meta_url e) = Inr u \<and>
        fileURLToPath (host_platform e) u = Inr p \<and>
        cfg = JObject [(''resolve'', JObject [(''alias'', JObject [(''@test/lib'', JString p)])])])"
  by (auto simp: app_config_def defineConfig_def split: sum.splits)













section \<open>The application resolver configuration\<close>




section \<open>The library build configuration\<close>

text \<open>
  C2. The library build configuration consists of a build-output descriptor and of
  nothing else: the exported object has the single key \<^verbatim>\<open>build\<close>, which has the single
  key \<^verbatim>\<open>lib\<close>, which has exactly the three fields entry source path
  \<^verbatim>\<open>src/index.ts\<close>, output file base name \<^verbatim>\<open>lib\<close> and format list \<^verbatim>\<open>["es"]\<close>.
\<close>

theorem lib_config_contents:
  "\<exists>cfg b l.
     lib_config e = Inr cfg \<and> keys cfg = [''build''] \<and>
     property ''build'' cfg = Some b \<and> keys b = [''lib''] \<and>
     property ''lib'' b = Some l \<and> keys l = [''entry'', ''fileName'', ''formats''] \<and>
     property ''entry'' l = Some (JString ''src/index.ts'') \<and>
     property ''fileName'' l = Some (JString ''lib'') \<and>
     property ''formats'' l = Some (JArray [JString ''es'']) \<and>
     descriptor_of cfg =
       Some \<lparr>entry = ''src/index.ts'', outputBaseName = ''lib'', formats = [''es'']\<rparr>"
  by (simp add: lib_config_def defineConfig_def keys_def property_def descriptor_of_def)

section \<open>Static data\<close>




section \<open>Evaluation succeeds\<close>




section \<open>Determinism\<close>




section \<open>The alias path\<close>




section \<open>The precondition is necessary\<close>

text \<open>
  C9. The application module evaluates to a configuration only if its module URL parses
  and has the scheme \<^verbatim>\<open>file\<close>, and on a POSIX host only if it has no host. There are
  module URLs for which the evaluation raises: for one that does not parse, the \<^verbatim>\<open>URL\<close>
  constructor throws; for one with the scheme \<^verbatim>\<open>http\<close>, the conversion of the URL to a
  path throws. The library module raises in no environment.
\<close>

theorem file_url_necessary:
  "(app_config e = Inr cfg \<longrightarrow>
      (\<exists>u bp. import_meta_url e = Some u \<and> scheme u = ''file'' \<and>
         (isWindows (host_platform e) \<or> hostname u = []) \<and> path u = Segments bp)) \<and>
   (\<exists>e1. import_meta_url e1 = None \<and> app_config e1 = Inl ERR_INVALID_URL) \<and>
   (\<exists>e2 u. import_meta_url e2 = Some u \<and> scheme u = ''http'' \<and>
      app_config e2 = Inl ERR_INVALID_URL_SCHEME) \<and>
   (\<exists>c. lib_config e' = Inr c)"
proof -
  have "\<exists>u bp. import_meta_url e = Some u \<and> scheme u = ''file'' \<and>
      (isWindows (host_platform e) \<or> hostname u = []) \<and> path u = Segments bp"
    if "app_config e = Inr cfg"
  proof -
    from that obtain r p where r: "new_URL ''../lib/src'' (import_meta_url e) = Inr r"
      and p: "fileURLToPath (host_platform e) r = Inr p"
      by (auto simp: app_config_Inr)
    from new_URL_Inr [OF r] obtain b :: url and bp where
      b: "import_meta_url e = Some b" "path b = Segments bp" "scheme r = scheme b"
      "host r = host b"
      by blast
    from p have "scheme r = ''file''" by (rule fileURLToPath_scheme)
    moreover from p have "hostname r = []" if "\<not> isWindows (host_platform e)"
      using that by (simp add: fileURLToPath_posix)
    ultimately show ?thesis using b by (auto simp: hostname_def)
  qed
  moreover have "import_meta_url (module_at None) = None \<and>
      app_config (module_at None) = Inl ERR_INVALID_URL"
    by (simp add: module_at_def module_on_def app_config_def new_URL_def)
  moreover have "import_meta_url (module_at (Some ((file_url [''app'', ''vite.config.ts''])
        \<lparr>scheme := ''http'', host := Some ''localhost''\<rparr>)))
      = Some ((file_url [''app'', ''vite.config.ts''])\<lparr>scheme := ''http'', host := Some ''localhost''\<rparr>)
    \<and> scheme ((file_url [''app'', ''vite.config.ts''])\<lparr>scheme := ''http'', host := Some ''localhost''\<rparr>) = ''http''
    \<and> app_config (module_at (Some ((file_url [''app'', ''vite.config.ts''])
        \<lparr>scheme := ''http'', host := Some ''localhost''\<rparr>))) = Inl ERR_INVALID_URL_SCHEME"
    by (simp add: module_at_def module_on_def file_url_def app_config_def new_URL_def
        fileURLToPath_def protocol_def)
  moreover have "\<exists>c. lib_config e' = Inr c" by (simp add: lib_config_def)
  ultimately show ?thesis by blast
qed

text \<open>
  The theorem at the configuration file \<^verbatim>\<open>/a/app/vite.config.ts\<close> on a POSIX host, where
  the evaluation yields a configuration.
\<close>

theorem file_url_necessary_witness:
  "app_config (module_at (Some (file_url [''a'', ''app'', ''vite.config.ts''])))
     = Inr (JObject [(''resolve'', JObject [(''alias'', JObject
         [(''@test/lib'', JString ''/a/lib/src'')])])]) \<and>
   \<not> isWindows (host_platform (module_at (Some (file_url [''a'', ''app'', ''vite.config.ts''])))) \<and>
   (\<exists>u bp. import_meta_url (module_at (Some (file_url [''a'', ''app'', ''vite.config.ts''])))
        = Some u \<and> scheme u = ''file'' \<and> hostname u = [] \<and> path u = Segments bp) \<and>
   (\<exists>e1. import_meta_url e1 = None \<and> app_config e1 = Inl ERR_INVALID_URL) \<and>
   (\<exists>e2 u. import_meta_url e2 = Some u \<and> scheme u = ''http'' \<and>
      app_config e2 = Inl ERR_INVALID_URL_SCHEME) \<and>
   (\<exists>c. lib_config (module_at None) = Inr c)"
proof -
  have h: "app_config (module_at (Some (file_url [''a'', ''app'', ''vite.config.ts''])))
     = Inr (JObject [(''resolve'', JObject [(''alias'', JObject
         [(''@test/lib'', JString ''/a/lib/src'')])])])"
    by code_simp
  have n: "\<not> isWindows (host_platform (module_at (Some (file_url [''a'', ''app'', ''vite.config.ts'']))))"
    by (simp add: module_at_def module_on_def posix_host_def)
  from file_url_necessary
    [of "module_at (Some (file_url [''a'', ''app'', ''vite.config.ts'']))"
        "JObject [(''resolve'', JObject [(''alias'', JObject
           [(''@test/lib'', JString ''/a/lib/src'')])])]" "module_at None"] h n
  show ?thesis by blast
qed

end
